theory Spec2Isabelle
  imports Complex_Main
begin

section \<open>Python numbers and exceptions\<close>

text \<open>
  The module \<^verbatim>\<open>pymc3/distributions/continuous.py\<close> is modelled for plain Python scalars.
  A Python \<^verbatim>\<open>int\<close> is an unbounded integer, a Python \<^verbatim>\<open>float\<close> is idealised as a real
  number (rounding is not modelled).  The module starts with
  \<^verbatim>\<open>from __future__ import division\<close>, so \<^verbatim>\<open>/\<close> is true division on every pair of numbers,
  and it raises \<^verbatim>\<open>ZeroDivisionError\<close> on a zero divisor.
\<close>

datatype error = ValueError | ZeroDivisionError

datatype pynum = PyInt int | PyFloat real

fun to_real :: "pynum \<Rightarrow> real" where
  "to_real (PyInt i) = of_int i"
| "to_real (PyFloat r) = r"

fun is_float :: "pynum \<Rightarrow> bool" where
  "is_float (PyInt i) = False"
| "is_float (PyFloat r) = True"

text \<open>\<^verbatim>\<open>1. * x\<close>: the product with a float literal is a float.\<close>

definition float_times :: "real \<Rightarrow> pynum \<Rightarrow> pynum" where
  "float_times c x = PyFloat (c * to_real x)"

text \<open>
  \<^verbatim>\<open>x ** y\<close> with a float exponent \<^verbatim>\<open>y\<close>: the base is converted to float and the result is a
  float.  A zero base with a negative exponent raises \<^verbatim>\<open>ZeroDivisionError\<close>.  A negative
  base with a non-integral exponent raises \<^verbatim>\<open>ValueError\<close> under Python 2 (under Python 3 the
  result is a complex number, which leaves the real-valued model all the same).
\<close>

definition float_pow :: "pynum \<Rightarrow> real \<Rightarrow> error + real" where
  "float_pow x y =
     (let b = to_real x in
      if y = 0 then Inr 1
      else if b = 0 then (if y < 0 then Inl ZeroDivisionError else Inr 0)
      else if b < 0 then
        (if y = of_int \<lfloor>y\<rfloor> then Inr (b powi \<lfloor>y\<rfloor>) else Inl ValueError)
      else Inr (b powr y))"

text \<open>True division of two numbers.\<close>

definition true_div :: "real \<Rightarrow> real \<Rightarrow> error + real" where
  "true_div a b = (if b = 0 then Inl ZeroDivisionError else Inr (a / b))"

section \<open>The precision / standard deviation resolver\<close>

text \<open>
  \<^verbatim>\<open>get_tau_sd(tau=None, sd=None)\<close>.  A missing keyword argument is \<open>None\<close>.
\<close>

definition get_tau_sd :: "pynum option \<Rightarrow> pynum option \<Rightarrow> error + (pynum \<times> pynum)" where
  "get_tau_sd tau sd =
     (case tau of
        None \<Rightarrow>
          (case sd of
             None \<Rightarrow> Inr (float_times 1 (PyFloat 1), float_times 1 (PyFloat 1))
           | Some s \<Rightarrow>
               (case float_pow s (- 2) of
                  Inl e \<Rightarrow> Inl e
                | Inr t \<Rightarrow> Inr (float_times 1 (PyFloat t), float_times 1 s)))
      | Some t \<Rightarrow>
          (case sd of
             Some s \<Rightarrow> Inl ValueError
           | None \<Rightarrow>
               (case float_pow t (- (1 / 2)) of
                  Inl e \<Rightarrow> Inl e
                | Inr s \<Rightarrow> Inr (float_times 1 t, float_times 1 (PyFloat s)))))"

section \<open>Alternate parameterizations\<close>

text \<open>
  The resolvers below take their optional keyword arguments as \<open>real option\<close>: the value
  of a Python \<^verbatim>\<open>int\<close> and of a Python \<^verbatim>\<open>float\<close> take part in \<^verbatim>\<open>*\<close>, \<^verbatim>\<open>-\<close>, \<^verbatim>\<open>**2\<close> and true
  division in the same way.
\<close>

text \<open>\<^verbatim>\<open>Wald.get_mu_lam_phi(self, mu, lam, phi)\<close>; the result is \<open>(mu, lam, phi)\<close>.\<close>

definition Wald_get_mu_lam_phi ::
    "real option \<Rightarrow> real option \<Rightarrow> real option \<Rightarrow> error + (real \<times> real \<times> real)" where
  "Wald_get_mu_lam_phi mu lam phi =
     (case mu of
        None \<Rightarrow>
          (case (lam, phi) of
             (Some l, Some p) \<Rightarrow>
               (case true_div l p of Inl e \<Rightarrow> Inl e | Inr m \<Rightarrow> Inr (m, l, p))
           | _ \<Rightarrow> Inl ValueError)
      | Some m \<Rightarrow>
          (case lam of
             None \<Rightarrow>
               (case phi of
                  None \<Rightarrow> (case true_div 1 m of Inl e \<Rightarrow> Inl e | Inr p \<Rightarrow> Inr (m, 1, p))
                | Some p \<Rightarrow> Inr (m, m * p, p))
           | Some l \<Rightarrow>
               (case phi of
                  None \<Rightarrow> (case true_div l m of Inl e \<Rightarrow> Inl e | Inr p \<Rightarrow> Inr (m, l, p))
                | Some p \<Rightarrow> Inl ValueError)))"

text \<open>\<^verbatim>\<open>Beta.get_alpha_beta(self, alpha=None, beta=None, mu=None, sd=None)\<close>.\<close>

definition Beta_get_alpha_beta ::
    "real option \<Rightarrow> real option \<Rightarrow> real option \<Rightarrow> real option \<Rightarrow> error + (real \<times> real)" where
  "Beta_get_alpha_beta alpha beta mu sd =
     (case (alpha, beta) of
        (Some a, Some b) \<Rightarrow> Inr (a, b)
      | _ \<Rightarrow>
          (case (mu, sd) of
             (Some m, Some s) \<Rightarrow>
               (case true_div (m * (1 - m)) (s ^ 2) of
                  Inl e \<Rightarrow> Inl e
                | Inr q \<Rightarrow> (let kappa = q - 1 in Inr (m * kappa, (1 - m) * kappa)))
           | _ \<Rightarrow> Inl ValueError))"

text \<open>\<^verbatim>\<open>Gamma.get_alpha_beta(self, alpha=None, beta=None, mu=None, sd=None)\<close>.\<close>

definition Gamma_get_alpha_beta ::
    "real option \<Rightarrow> real option \<Rightarrow> real option \<Rightarrow> real option \<Rightarrow> error + (real \<times> real)" where
  "Gamma_get_alpha_beta alpha beta mu sd =
     (case (alpha, beta) of
        (Some a, Some b) \<Rightarrow> Inr (a, b)
      | _ \<Rightarrow>
          (case (mu, sd) of
             (Some m, Some s) \<Rightarrow>
               (case true_div (m ^ 2) (s ^ 2) of
                  Inl e \<Rightarrow> Inl e
                | Inr a \<Rightarrow>
                    (case true_div m (s ^ 2) of
                       Inl e \<Rightarrow> Inl e
                     | Inr b \<Rightarrow> Inr (a, b)))
           | _ \<Rightarrow> Inl ValueError))"

section \<open>Floats with infinities, and the numeric guard\<close>

text \<open>
  Where the module uses \<^verbatim>\<open>np.inf\<close> and \<^verbatim>\<open>-np.inf\<close> (the default bounds of \<^verbatim>\<open>Bound\<close>, the
  moments that do not exist, the value of an impossible log-density) a float is a real
  number or one of the two infinities.
\<close>

datatype xfloat = MInf | Fin real | PInf

text \<open>\<^verbatim>\<open>value > bound\<close>, \<^verbatim>\<open>value >= bound\<close> and \<^verbatim>\<open>value <= bound\<close> for a finite value.\<close>

fun x_gt :: "real \<Rightarrow> xfloat \<Rightarrow> bool" where
  "x_gt v MInf = True"
| "x_gt v (Fin l) = (v > l)"
| "x_gt v PInf = False"

fun x_ge :: "real \<Rightarrow> xfloat \<Rightarrow> bool" where
  "x_ge v MInf = True"
| "x_ge v (Fin l) = (v \<ge> l)"
| "x_ge v PInf = False"

fun x_le :: "real \<Rightarrow> xfloat \<Rightarrow> bool" where
  "x_le v MInf = False"
| "x_le v (Fin u) = (v \<le> u)"
| "x_le v PInf = True"

text \<open>
  Modelled from the spec: \<^verbatim>\<open>bound\<close> of \<^verbatim>\<open>dist_math.py\<close>, which is not among the sources.
  The spec: ``if every constraint evaluates true, the output equals \<^verbatim>\<open>expr\<close>; otherwise the
  output is a large-magnitude negative sentinel (representing log-probability 0, i.e.
  impossible), not an error''.  The sentinel is \<open>MInf\<close>.
\<close>

definition bound :: "xfloat \<Rightarrow> bool list \<Rightarrow> xfloat" where
  "bound logp conditions = (if list_all (\<lambda>c. c) conditions then logp else MInf)"

text \<open>
  The special functions \<^verbatim>\<open>gammaln\<close>, \<^verbatim>\<open>betaln\<close> and \<^verbatim>\<open>logpow\<close> are imported from
  \<^verbatim>\<open>dist_math.py\<close> as well; the log-densities take them as a parameter.
\<close>

record dist_math =
  gammaln :: "real \<Rightarrow> real"
  betaln :: "real \<Rightarrow> real \<Rightarrow> real"
  logpow :: "real \<Rightarrow> real \<Rightarrow> real"

text \<open>
  Modelled from the spec: \<^verbatim>\<open>draw_values\<close> and \<^verbatim>\<open>generate_samples\<close> of \<^verbatim>\<open>distribution.py\<close>,
  which is not among the sources.  A literal parameter is ``returned as-is'' by
  \<^verbatim>\<open>draw_values\<close> (the parameters here are literals), and \<^verbatim>\<open>generate_samples\<close> ``invokes
  \<^verbatim>\<open>generatorFn\<close> with the resolved parameters and a \<^verbatim>\<open>size\<close> argument''; reshaping does not
  change the values drawn.
\<close>

definition generate_samples :: "('size \<Rightarrow> 'r) \<Rightarrow> 'size \<Rightarrow> 'r" where
  "generate_samples generator sz = generator sz"

section \<open>Distributions\<close>

text \<open>
  A distribution object is a record of the attributes that \<^verbatim>\<open>__init__\<close> computes with
  arithmetic and that the methods read; the field \<open>C_x\<close> is the attribute \<^verbatim>\<open>self.x\<close> of an
  object of class \<open>C\<close>.  The base class constructor (\<^verbatim>\<open>Continuous\<close>, not
  among the sources) is not modelled.
\<close>

subsection \<open>Normal\<close>

record Normal =
  Normal_mu :: real
  Normal_tau :: real
  Normal_sd :: real
  Normal_variance :: real

text \<open>\<^verbatim>\<open>Normal.__init__(self, mu=0.0, tau=None, sd=None)\<close>.\<close>

definition Normal_init :: "real \<Rightarrow> pynum option \<Rightarrow> pynum option \<Rightarrow> error + Normal" where
  "Normal_init mu tau sd =
     (case get_tau_sd tau sd of
        Inl e \<Rightarrow> Inl e
      | Inr (t, s) \<Rightarrow>
          (case true_div 1 (to_real t) of
             Inl e \<Rightarrow> Inl e
           | Inr v \<Rightarrow>
               Inr \<lparr>Normal_mu = mu, Normal_tau = to_real t, Normal_sd = to_real s,
                    Normal_variance = v\<rparr>))"

text \<open>\<^verbatim>\<open>Normal.logp(self, value)\<close>.\<close>

definition Normal_logp :: "Normal \<Rightarrow> real \<Rightarrow> xfloat" where
  "Normal_logp self value =
     (let tau = Normal_tau self; sd = Normal_sd self; mu = Normal_mu self in
      bound (Fin ((- tau * (value - mu) ^ 2 + ln (tau / pi / 2)) / 2))
        [tau > 0, sd > 0])"

subsection \<open>Laplace\<close>

record Laplace =
  Laplace_b :: real
  Laplace_mu :: real
  Laplace_variance :: real

text \<open>\<^verbatim>\<open>Laplace.__init__(self, mu, b)\<close>.\<close>

definition Laplace_init :: "real \<Rightarrow> real \<Rightarrow> Laplace" where
  "Laplace_init mu b = \<lparr>Laplace_b = b, Laplace_mu = mu, Laplace_variance = 2 * b ^ 2\<rparr>"

text \<open>\<^verbatim>\<open>Laplace.logp(self, value)\<close>: the formula is returned as it is.\<close>

definition Laplace_logp :: "Laplace \<Rightarrow> real \<Rightarrow> xfloat" where
  "Laplace_logp self value =
     (let mu = Laplace_mu self; b = Laplace_b self in
      Fin (- ln (2 * b) - \<bar>value - mu\<bar> / b))"

subsection \<open>Beta\<close>

record Beta =
  Beta_alpha :: real
  Beta_beta :: real
  Beta_mean :: real
  Beta_variance :: real

text \<open>\<^verbatim>\<open>Beta.__init__(self, alpha=None, beta=None, mu=None, sd=None)\<close>.\<close>

definition Beta_init ::
    "real option \<Rightarrow> real option \<Rightarrow> real option \<Rightarrow> real option \<Rightarrow> error + Beta" where
  "Beta_init alpha beta mu sd =
     (case Beta_get_alpha_beta alpha beta mu sd of
        Inl e \<Rightarrow> Inl e
      | Inr (a, b) \<Rightarrow>
          (case true_div a (a + b) of
             Inl e \<Rightarrow> Inl e
           | Inr m \<Rightarrow>
               (case true_div (a * b) ((a + b) ^ 2 * (a + b + 1)) of
                  Inl e \<Rightarrow> Inl e
                | Inr v \<Rightarrow> Inr \<lparr>Beta_alpha = a, Beta_beta = b, Beta_mean = m, Beta_variance = v\<rparr>)))"

text \<open>\<^verbatim>\<open>Beta.logp(self, value)\<close>.\<close>

definition Beta_logp :: "dist_math \<Rightarrow> Beta \<Rightarrow> real \<Rightarrow> xfloat" where
  "Beta_logp dm self value =
     (let alpha = Beta_alpha self; beta = Beta_beta self in
      bound (Fin (logpow dm value (alpha - 1) + logpow dm (1 - value) (beta - 1)
                  - betaln dm alpha beta))
        [value \<ge> 0, value \<le> 1, alpha > 0, beta > 0])"

subsection \<open>Pareto\<close>

text \<open>Only the two parameters of \<^verbatim>\<open>Pareto\<close> are kept; its moments are not modelled.\<close>

record Pareto =
  Pareto_alpha :: real
  Pareto_m :: real

text \<open>\<^verbatim>\<open>Pareto.logp(self, value)\<close>.\<close>

definition Pareto_logp :: "dist_math \<Rightarrow> Pareto \<Rightarrow> real \<Rightarrow> xfloat" where
  "Pareto_logp dm self value =
     (let alpha = Pareto_alpha self; m = Pareto_m self in
      bound (Fin (ln alpha + logpow dm m alpha - logpow dm value (alpha + 1)))
        [value \<ge> m, alpha > 0, m > 0])"

subsection \<open>Gamma and ChiSquared\<close>

record Gamma =
  Gamma_alpha :: real
  Gamma_beta :: real
  Gamma_mean :: real
  Gamma_mode :: real
  Gamma_variance :: real

text \<open>\<^verbatim>\<open>Gamma.__init__(self, alpha=None, beta=None, mu=None, sd=None)\<close>.\<close>

definition Gamma_init ::
    "real option \<Rightarrow> real option \<Rightarrow> real option \<Rightarrow> real option \<Rightarrow> error + Gamma" where
  "Gamma_init alpha beta mu sd =
     (case Gamma_get_alpha_beta alpha beta mu sd of
        Inl e \<Rightarrow> Inl e
      | Inr (a, b) \<Rightarrow>
          (case true_div a b of
             Inl e \<Rightarrow> Inl e
           | Inr mean \<Rightarrow>
               (case true_div (a - 1) b of
                  Inl e \<Rightarrow> Inl e
                | Inr q \<Rightarrow>
                    (case true_div a (b ^ 2) of
                       Inl e \<Rightarrow> Inl e
                     | Inr v \<Rightarrow>
                         Inr \<lparr>Gamma_alpha = a, Gamma_beta = b, Gamma_mean = mean,
                              Gamma_mode = max q 0, Gamma_variance = v\<rparr>))))"

text \<open>
  \<^verbatim>\<open>Gamma.logp(self, value)\<close> and \<^verbatim>\<open>Gamma.random(self, point, size)\<close>.  Both are defined on
  every extension of the record, as the methods are inherited by every subclass.
  \<^verbatim>\<open>stats.gamma.rvs\<close> is the parameter \<open>rvs\<close>, called as \<^verbatim>\<open>rvs(alpha, scale=1. / beta, size=...)\<close>.
\<close>

definition Gamma_logp :: "dist_math \<Rightarrow> 'a Gamma_scheme \<Rightarrow> real \<Rightarrow> xfloat" where
  "Gamma_logp dm self value =
     (let alpha = Gamma_alpha self; beta = Gamma_beta self in
      bound (Fin (- gammaln dm alpha + logpow dm beta alpha - beta * value
                  + logpow dm value (alpha - 1)))
        [value \<ge> 0, alpha > 0, beta > 0])"

definition Gamma_random ::
    "(real \<Rightarrow> real \<Rightarrow> 'size \<Rightarrow> 'r) \<Rightarrow> 'a Gamma_scheme \<Rightarrow> 'size \<Rightarrow> error + 'r" where
  "Gamma_random rvs self sz =
     (let alpha = Gamma_alpha self; beta = Gamma_beta self in
      case true_div 1 beta of
        Inl e \<Rightarrow> Inl e
      | Inr scale \<Rightarrow> Inr (generate_samples (rvs alpha scale) sz))"

text \<open>
  \<^verbatim>\<open>class ChiSquared(Gamma)\<close>: the subclass adds the attribute \<^verbatim>\<open>nu\<close> and defines
  \<^verbatim>\<open>__init__\<close> only.
\<close>

record ChiSquared = Gamma +
  ChiSquared_nu :: real

text \<open>\<^verbatim>\<open>ChiSquared.__init__(self, nu)\<close>.\<close>

definition ChiSquared_init :: "real \<Rightarrow> error + ChiSquared" where
  "ChiSquared_init nu =
     (case Gamma_init (Some (nu / 2)) (Some (1 / 2)) None None of
        Inl e \<Rightarrow> Inl e
      | Inr g \<Rightarrow> Inr (Gamma.extend g (ChiSquared.fields nu)))"

subsection \<open>InverseGamma\<close>

record InverseGamma =
  InverseGamma_alpha :: real
  InverseGamma_beta :: real
  InverseGamma_mean :: xfloat
  InverseGamma_mode :: real
  InverseGamma_variance :: xfloat

text \<open>
  The right-hand side of \<^verbatim>\<open>self.mean = (alpha > 1) * beta / (alpha - 1.) or np.inf\<close>.
  A Python \<^verbatim>\<open>bool\<close> multiplies as \<open>1\<close> or \<open>0\<close>; \<^verbatim>\<open>x or y\<close> is \<open>x\<close> when \<open>x\<close> is true, which for a
  number means non-zero, and \<open>y\<close> otherwise.
\<close>

definition InverseGamma_mean :: "real \<Rightarrow> real \<Rightarrow> error + xfloat" where
  "InverseGamma_mean alpha beta =
     (case true_div ((if alpha > 1 then 1 else 0) * beta) (alpha - 1) of
        Inl e \<Rightarrow> Inl e
      | Inr q \<Rightarrow> Inr (if q \<noteq> 0 then Fin q else PInf))"

text \<open>
  \<^verbatim>\<open>InverseGamma.__init__(self, alpha, beta=1)\<close>.  The quotient passed to \<^verbatim>\<open>tt.switch\<close> is
  computed before the call.
\<close>

definition InverseGamma_init :: "real \<Rightarrow> real \<Rightarrow> error + InverseGamma" where
  "InverseGamma_init alpha beta =
     (case InverseGamma_mean alpha beta of
        Inl e \<Rightarrow> Inl e
      | Inr mean \<Rightarrow>
          (case true_div beta (alpha + 1) of
             Inl e \<Rightarrow> Inl e
           | Inr mode \<Rightarrow>
               (case true_div (beta ^ 2) (alpha * (alpha - 1) ^ 2) of
                  Inl e \<Rightarrow> Inl e
                | Inr v \<Rightarrow>
                    Inr \<lparr>InverseGamma_alpha = alpha, InverseGamma_beta = beta,
                         InverseGamma_mean = mean, InverseGamma_mode = mode,
                         InverseGamma_variance = (if alpha > 2 then Fin v else PInf)\<rparr>)))"

subsection \<open>Bounded\<close>

text \<open>
  The inner distribution \<^verbatim>\<open>self.dist\<close> is an object with the methods \<^verbatim>\<open>logp\<close> and
  \<^verbatim>\<open>random\<close>.  A call \<^verbatim>\<open>self.dist.random(point=point, size=n)\<close> reads and advances the state
  \<open>'g\<close> of the random number generator and returns an array of draws; nothing is assumed
  about the draws or their number.
\<close>

record 'g distribution =
  distribution_logp :: "real \<Rightarrow> xfloat"
  distribution_random :: "int \<Rightarrow> 'g \<Rightarrow> real list \<times> 'g"

text \<open>
  \<^verbatim>\<open>Bounded.__init__\<close> stores \<^verbatim>\<open>distribution.dist(...)\<close>, \<^verbatim>\<open>lower\<close> and \<^verbatim>\<open>upper\<close>; the choice of
  the transform and of the test value is not modelled.
\<close>

record 'g Bounded =
  Bounded_dist :: "'g distribution"
  Bounded_lower :: xfloat
  Bounded_upper :: xfloat

text \<open>\<^verbatim>\<open>sample[np.logical_and(sample > lower, sample <= upper)]\<close>.\<close>

definition select :: "xfloat \<Rightarrow> xfloat \<Rightarrow> real list \<Rightarrow> real list" where
  "select lower upper sample = filter (\<lambda>s. x_gt s lower \<and> x_le s upper) sample"

text \<open>
  \<^verbatim>\<open>np.zeros(size).flatten()\<close>: \<^verbatim>\<open>size\<close> is \<open>None\<close> (a single value) or a shape, an integer
  \<open>k\<close> being the shape \<open>[k]\<close>.
\<close>

definition np_zeros_flatten :: "nat list option \<Rightarrow> real list" where
  "np_zeros_flatten sz = replicate (case sz of None \<Rightarrow> 1 | Some dims \<Rightarrow> prod_list dims) 0"

text \<open>
  The \<^verbatim>\<open>while\<close> loop of \<^verbatim>\<open>Bounded._random\<close>, with the loop variables \<^verbatim>\<open>samples\<close>, \<^verbatim>\<open>i\<close>
  and \<^verbatim>\<open>n\<close>.  The slice assignment \<^verbatim>\<open>samples[i:(i + len(select))] = select[:]\<close> raises
  \<^verbatim>\<open>ValueError\<close> when \<^verbatim>\<open>select\<close> is longer than the rest of the buffer.  The loop need not
  terminate: \<open>None\<close> is the result of a run that never leaves it.
\<close>

partial_function (option) Bounded_random_loop ::
    "'g distribution \<Rightarrow> xfloat \<Rightarrow> xfloat \<Rightarrow> real list \<Rightarrow> nat \<Rightarrow> int \<Rightarrow> 'g
       \<Rightarrow> (error + real list \<times> 'g) option" where
  "Bounded_random_loop d lower upper samples i n g =
     (if i < length samples then
        (case distribution_random d n g of
           (sample, g') \<Rightarrow>
             (let sel = select lower upper sample in
              if length sel \<le> length samples - i then
                Bounded_random_loop d lower upper
                  (take i samples @ sel @ drop (i + length sel) samples)
                  (i + length sel) (n - int (length sel)) g'
              else Some (Inl ValueError)))
      else Some (Inr (samples, g)))"

text \<open>
  \<^verbatim>\<open>Bounded._random(self, lower, upper, point=None, size=None)\<close>.  The result is the flat
  buffer; \<^verbatim>\<open>np.reshape(samples, size)\<close> arranges the same values in the shape \<^verbatim>\<open>size\<close>.
\<close>

definition Bounded__random ::
    "'g Bounded \<Rightarrow> xfloat \<Rightarrow> xfloat \<Rightarrow> nat list option \<Rightarrow> 'g
       \<Rightarrow> (error + real list \<times> 'g) option" where
  "Bounded__random self lower upper sz g =
     (let samples = np_zeros_flatten sz in
      Bounded_random_loop (Bounded_dist self) lower upper samples 0 (int (length samples)) g)"

text \<open>\<^verbatim>\<open>Bounded.random(self, point=None, size=None)\<close>.\<close>

definition Bounded_random ::
    "'g Bounded \<Rightarrow> nat list option \<Rightarrow> 'g \<Rightarrow> (error + real list \<times> 'g) option" where
  "Bounded_random self sz g =
     (let lower = Bounded_lower self; upper = Bounded_upper self in
      generate_samples (\<lambda>sz. Bounded__random self lower upper sz g) sz)"

text \<open>\<^verbatim>\<open>Bounded.logp(self, value)\<close>.\<close>

definition Bounded_logp :: "'g Bounded \<Rightarrow> real \<Rightarrow> xfloat" where
  "Bounded_logp self value =
     bound (distribution_logp (Bounded_dist self) value)
       [x_ge value (Bounded_lower self), x_le value (Bounded_upper self)]"

subsection \<open>A concrete inner distribution\<close>

text \<open>
  An inner distribution used to run the sampler on a concrete input.  The generator state
  counts the calls.  The first call returns the batch \<open>[0, 1]\<close>, every later call the batch
  \<open>0, 2, \<dots>, 2\<close> with \<open>n\<close> copies of \<open>2\<close>.
\<close>

definition two_batches :: "nat distribution" where
  "two_batches =
     \<lparr>distribution_logp = (\<lambda>v. Fin 0),
      distribution_random =
        (\<lambda>n h. (if h = 0 then [0, 1] else 0 # replicate (nat n) 2, Suc h))\<rparr>"

definition bounded_two_batches :: "nat Bounded" where
  "bounded_two_batches =
     \<lparr>Bounded_dist = two_batches, Bounded_lower = Fin 0, Bounded_upper = PInf\<rparr>"

section \<open>Properties of the precision / standard deviation resolver\<close>

text \<open>
  Claim C8.  \<^verbatim>\<open>get_tau_sd\<close> raises an error when both \<^verbatim>\<open>tau\<close> and \<^verbatim>\<open>sd\<close> are supplied
  (whatever their values), and returns the default pair \<open>(1., 1.)\<close> when neither is.
\<close>

theorem get_tau_sd_both_or_neither:
  "get_tau_sd (Some t) (Some s) = Inl ValueError \<and>
   get_tau_sd None None = Inr (PyFloat 1, PyFloat 1)"
  by (simp add: get_tau_sd_def float_times_def)

text \<open>
  Claim C9.  Every successful call with exactly one positive argument returns two floats
  (also for an \<^verbatim>\<open>int\<close> argument), the supplied value is kept, and the pair is consistent:
  \<open>tau = sd\<^sup>-\<^sup>2\<close> and \<open>sd = tau\<^sup>-\<^sup>1\<^sup>/\<^sup>2\<close>.
\<close>

theorem get_tau_sd_consistent:
  assumes "0 < to_real x"
  shows "(\<exists>tau sd. get_tau_sd (Some x) None = Inr (tau, sd) \<and> is_float tau \<and> is_float sd \<and>
            to_real tau = to_real x \<and>
            to_real tau = to_real sd powr (- 2) \<and> to_real sd = to_real tau powr (- (1 / 2))) \<and>
         (\<exists>tau sd. get_tau_sd None (Some x) = Inr (tau, sd) \<and> is_float tau \<and> is_float sd \<and>
            to_real sd = to_real x \<and>
            to_real tau = to_real sd powr (- 2) \<and> to_real sd = to_real tau powr (- (1 / 2)))"
  using assms by (simp add: get_tau_sd_def float_pow_def float_times_def powr_powr)

theorem get_tau_sd_consistent_witness:
  "0 < to_real (PyInt 4) \<and>
   get_tau_sd (Some (PyInt 4)) None = Inr (PyFloat 4, PyFloat (1 / 2)) \<and>
   get_tau_sd None (Some (PyInt 4)) = Inr (PyFloat (1 / 16), PyFloat 4)"
  using get_tau_sd_consistent [of "PyInt 4"]
  by (simp add: get_tau_sd_def float_pow_def float_times_def powr_minus powr_half_sqrt
      field_simps)

section \<open>Properties of the alternate parameterizations\<close>

text \<open>
  Claim C4.  \<^verbatim>\<open>Wald.get_mu_lam_phi\<close> accepts four combinations of arguments: \<open>mu\<close> alone
  (\<open>lam = 1\<close>, \<open>phi = 1 / mu\<close>), \<open>mu\<close> and \<open>lam\<close> (\<open>phi = lam / mu\<close>), \<open>mu\<close> and \<open>phi\<close>
  (\<open>lam = mu * phi\<close>), \<open>lam\<close> and \<open>phi\<close> (\<open>mu = lam / phi\<close>); the divisor is taken to be
  non-zero.  The four other combinations raise \<^verbatim>\<open>ValueError\<close>, and \<open>(mu = 2, lam = 3)\<close>
  resolves to the same triple as \<open>(mu = 2, phi = 3 / 2)\<close>.
\<close>

theorem Wald_get_mu_lam_phi_combinations:
  "(m \<noteq> 0 \<longrightarrow> Wald_get_mu_lam_phi (Some m) None None = Inr (m, 1, 1 / m)) \<and>
   (m \<noteq> 0 \<longrightarrow> Wald_get_mu_lam_phi (Some m) (Some l) None = Inr (m, l, l / m)) \<and>
   Wald_get_mu_lam_phi (Some m) None (Some p) = Inr (m, m * p, p) \<and>
   (p \<noteq> 0 \<longrightarrow> Wald_get_mu_lam_phi None (Some l) (Some p) = Inr (l / p, l, p)) \<and>
   Wald_get_mu_lam_phi None None None = Inl ValueError \<and>
   Wald_get_mu_lam_phi None (Some l) None = Inl ValueError \<and>
   Wald_get_mu_lam_phi None None (Some p) = Inl ValueError \<and>
   Wald_get_mu_lam_phi (Some m) (Some l) (Some p) = Inl ValueError \<and>
   Wald_get_mu_lam_phi (Some 2) (Some 3) None = Wald_get_mu_lam_phi (Some 2) None (Some (3 / 2))"
  by (simp add: Wald_get_mu_lam_phi_def true_div_def)

theorem Wald_get_mu_lam_phi_combinations_witness:
  "(2::real) \<noteq> 0 \<and> (3 / 2 :: real) \<noteq> 0 \<and>
   Wald_get_mu_lam_phi (Some 2) None None = Inr (2, 1, 1 / 2) \<and>
   Wald_get_mu_lam_phi (Some 2) (Some 3) None = Inr (2, 3, 3 / 2) \<and>
   Wald_get_mu_lam_phi (Some 2) None (Some (3 / 2)) = Inr (2, 3, 3 / 2) \<and>
   Wald_get_mu_lam_phi None (Some 3) (Some (3 / 2)) = Inr (2, 3, 3 / 2) \<and>
   Wald_get_mu_lam_phi (Some 2) (Some 3) (Some (3 / 2)) = Inl ValueError"
  using Wald_get_mu_lam_phi_combinations [of 2 3 "3 / 2"] by simp

text \<open>
  Claim C7.  When the group \<open>{mu, sd}\<close> is the one that is used (the group \<open>{alpha, beta}\<close>
  is not complete) and \<open>sd\<close> is not zero, Beta computes
  \<open>kappa = mu (1 - mu) / sd\<^sup>2 - 1\<close>, \<open>alpha = mu kappa\<close>, \<open>beta = (1 - mu) kappa\<close>, and Gamma
  computes \<open>alpha = mu\<^sup>2 / sd\<^sup>2\<close>, \<open>beta = mu / sd\<^sup>2\<close>.
\<close>

theorem get_alpha_beta_from_mu_sd:
  assumes "alpha = None \<or> beta = None" and "sd \<noteq> 0"
  shows "Beta_get_alpha_beta alpha beta (Some mu) (Some sd) =
           Inr (mu * (mu * (1 - mu) / sd ^ 2 - 1), (1 - mu) * (mu * (1 - mu) / sd ^ 2 - 1)) \<and>
         Gamma_get_alpha_beta alpha beta (Some mu) (Some sd) =
           Inr (mu ^ 2 / sd ^ 2, mu / sd ^ 2)"
  using assms
  by (auto simp add: Beta_get_alpha_beta_def Gamma_get_alpha_beta_def true_div_def Let_def
      split: option.splits)

theorem get_alpha_beta_from_mu_sd_witness:
  "((None :: real option) = None \<or> (None :: real option) = None) \<and> (1 / 4 :: real) \<noteq> 0 \<and>
   Beta_get_alpha_beta None None (Some (1 / 2)) (Some (1 / 4)) = Inr (3 / 2, 3 / 2) \<and>
   Gamma_get_alpha_beta None None (Some (1 / 2)) (Some (1 / 4)) = Inr (4, 8)"
  using get_alpha_beta_from_mu_sd [of None None "1 / 4" "1 / 2"]
  by (simp add: power2_eq_square)

text \<open>
  The first half of claim C2: when neither group is complete, both resolvers raise.
\<close>

lemma get_alpha_beta_underspecified:
  assumes "alpha = None \<or> beta = None" and "mu = None \<or> sd = None"
  shows "Beta_get_alpha_beta alpha beta mu sd = Inl ValueError \<and>
         Gamma_get_alpha_beta alpha beta mu sd = Inl ValueError"
  using assms
  by (auto simp add: Beta_get_alpha_beta_def Gamma_get_alpha_beta_def split: option.splits)

text \<open>
  Claim C2, second half, at \<open>alpha = 2\<close>, \<open>beta = 3\<close>, \<open>mu = 1 / 2\<close>, \<open>sd = 1 / 10\<close>: both
  groups are complete, and the resolvers do not raise; they return \<open>(alpha, beta)\<close> and
  drop \<open>mu\<close> and \<open>sd\<close>.
\<close>

theorem get_alpha_beta_both_groups:
  "Beta_get_alpha_beta (Some 2) (Some 3) (Some (1 / 2)) (Some (1 / 10)) = Inr (2, 3) \<and>
   Gamma_get_alpha_beta (Some 2) (Some 3) (Some (1 / 2)) (Some (1 / 10)) = Inr (2, 3)"
  by (simp add: Beta_get_alpha_beta_def Gamma_get_alpha_beta_def)

section \<open>ChiSquared is a reparameterized Gamma\<close>

text \<open>
  Claim C3.  For every \<open>nu\<close>, \<^verbatim>\<open>ChiSquared(nu)\<close> is constructed without error and is the
  object \<^verbatim>\<open>Gamma(alpha=nu / 2, beta=1 / 2)\<close> with the extra attribute \<open>nu\<close>: the inherited
  log-density agrees with the one of that Gamma at every value, and the inherited sampler
  is the Gamma sampler with those parameters.
\<close>

theorem ChiSquared_is_Gamma:
  "\<exists>c g. ChiSquared_init nu = Inr c \<and>
          Gamma_init (Some (nu / 2)) (Some (1 / 2)) None None = Inr g \<and>
          Gamma_alpha c = nu / 2 \<and> Gamma_beta c = 1 / 2 \<and> ChiSquared_nu c = nu \<and>
          (\<forall>x. Gamma_logp dm c x = Gamma_logp dm g x) \<and>
          (\<forall>sz. Gamma_random rvs c sz = Gamma_random rvs g sz)"
  by (simp add: ChiSquared_init_def Gamma_init_def Gamma_get_alpha_beta_def true_div_def
      Gamma_logp_def Gamma_random_def Gamma.extend_def ChiSquared.fields_def)

section \<open>The mean of InverseGamma\<close>

text \<open>
  Where the expression \<^verbatim>\<open>(alpha > 1) * beta / (alpha - 1.) or np.inf\<close> agrees with
  \<open>beta / (alpha - 1)\<close> for \<open>alpha > 1\<close> and \<open>+inf\<close> otherwise: for \<open>alpha > 1\<close> when \<open>beta\<close> is
  not zero, and for \<open>alpha < 1\<close>.  For \<open>alpha > 1\<close> and \<open>beta = 0\<close> the quotient \<open>0\<close> counts as
  false and the mean is \<open>+inf\<close>.
\<close>

lemma InverseGamma_mean_cases:
  "(1 < alpha \<and> beta \<noteq> 0 \<longrightarrow> InverseGamma_mean alpha beta = Inr (Fin (beta / (alpha - 1)))) \<and>
   (alpha < 1 \<longrightarrow> InverseGamma_mean alpha beta = Inr PInf) \<and>
   (1 < alpha \<longrightarrow> InverseGamma_mean alpha 0 = Inr PInf)"
  by (simp add: InverseGamma_mean_def true_div_def)

text \<open>
  Claim C5 at \<open>alpha = 1\<close>, \<open>beta = 1\<close>: the claim gives the mean \<open>+inf\<close>; the expression
  divides \<open>0\<close> by \<open>0.\<close> and the construction raises \<^verbatim>\<open>ZeroDivisionError\<close>.
\<close>

theorem InverseGamma_mean_at_one:
  "InverseGamma_mean 1 1 = Inl ZeroDivisionError \<and>
   InverseGamma_init 1 1 = Inl ZeroDivisionError"
  by (simp add: InverseGamma_mean_def InverseGamma_init_def true_div_def)

section \<open>Guarded and unguarded log-densities\<close>

text \<open>
  The log-densities of Normal, Beta, Pareto, Gamma and Bounded are the sentinel as soon as
  one of their constraints fails.
\<close>

lemma guarded_logp:
  "(\<not> (0 < Normal_tau n \<and> 0 < Normal_sd n) \<longrightarrow> Normal_logp n value = MInf) \<and>
   (\<not> (0 \<le> value \<and> value \<le> 1 \<and> 0 < Beta_alpha be \<and> 0 < Beta_beta be) \<longrightarrow>
      Beta_logp dm be value = MInf) \<and>
   (\<not> (Pareto_m p \<le> value \<and> 0 < Pareto_alpha p \<and> 0 < Pareto_m p) \<longrightarrow>
      Pareto_logp dm p value = MInf) \<and>
   (\<not> (0 \<le> value \<and> 0 < Gamma_alpha ga \<and> 0 < Gamma_beta ga) \<longrightarrow>
      Gamma_logp dm ga value = MInf) \<and>
   (\<not> (x_ge value (Bounded_lower bd) \<and> x_le value (Bounded_upper bd)) \<longrightarrow>
      Bounded_logp bd value = MInf)"
  by (auto simp add: Normal_logp_def Beta_logp_def Pareto_logp_def Gamma_logp_def
      Bounded_logp_def bound_def Let_def)

text \<open>\<^verbatim>\<open>Laplace.logp\<close> is never the sentinel, whatever the scale \<open>b\<close>.\<close>

lemma Laplace_logp_never_impossible: "Laplace_logp self value \<noteq> MInf"
  by (simp add: Laplace_logp_def Let_def)

text \<open>
  Claim C1 at \<^verbatim>\<open>Laplace(mu=0, b=-1).logp(0)\<close>: the scale is out of range (\<open>b > 0\<close> is
  required), the claim gives the sentinel, and the value returned is not the sentinel.
\<close>

theorem Laplace_logp_unguarded:
  "Laplace_logp (Laplace_init 0 (- 1)) 0 \<noteq> MInf"
  by (simp add: Laplace_logp_def Laplace_init_def)

section \<open>The rejection sampler of Bounded\<close>

lemma select_in_range: "v \<in> set (select lo up sample) \<Longrightarrow> x_gt v lo \<and> x_le v up"
  by (simp add: select_def)

lemma take_slice_assign:
  assumes "i \<le> length samples"
  shows "take (i + length sel) (take i samples @ sel @ rest) = take i samples @ sel"
  using assms by simp

text \<open>
  The loop invariant: the first \<open>i\<close> entries of the buffer are accepted draws.  When the
  loop returns, the buffer is full.
\<close>

lemma Bounded_random_loop_safe:
  assumes "Bounded_random_loop d lo up samples i n g = Some r"
  shows "i \<le> length samples \<longrightarrow> (\<forall>v \<in> set (take i samples). x_gt v lo \<and> x_le v up) \<longrightarrow>
         (\<forall>out g'. r = Inr (out, g') \<longrightarrow>
            length out = length samples \<and> (\<forall>v \<in> set out. x_gt v lo \<and> x_le v up))"
proof (rule Bounded_random_loop.raw_induct
    [where P = "\<lambda>d lo up samples i n g r.
       i \<le> length samples \<longrightarrow> (\<forall>v \<in> set (take i samples). x_gt v lo \<and> x_le v up) \<longrightarrow>
       (\<forall>out g'. r = Inr (out, g') \<longrightarrow>
          length out = length samples \<and> (\<forall>v \<in> set out. x_gt v lo \<and> x_le v up))",
     OF _ assms], goal_cases)
  case (1 loop d lo up samples i n g r)
  note ih = "1"(1) and eqn = "1"(2)
  show ?case
  proof (cases "i < length samples")
    case False
    with eqn have r: "r = Inr (samples, g)" by simp
    show ?thesis
    proof (intro impI allI)
      fix out g'
      assume le: "i \<le> length samples"
        and inv: "\<forall>v \<in> set (take i samples). x_gt v lo \<and> x_le v up"
        and eq: "r = Inr (out, g')"
      from False le have "i = length samples" by simp
      with inv have "\<forall>v \<in> set samples. x_gt v lo \<and> x_le v up" by simp
      with r eq show "length out = length samples \<and> (\<forall>v \<in> set out. x_gt v lo \<and> x_le v up)"
        by simp
    qed
  next
    case True
    obtain sample g1 where dr: "distribution_random d n g = (sample, g1)"
      by (cases "distribution_random d n g")
    define sel where "sel = select lo up sample"
    define samples' where "samples' = take i samples @ sel @ drop (i + length sel) samples"
    show ?thesis
    proof (cases "length sel \<le> length samples - i")
      case False
      with True dr eqn have "r = Inl ValueError"
        by (simp add: sel_def Let_def)
      then show ?thesis by simp
    next
      case fits: True
      with True dr eqn
      have call: "loop d lo up samples' (i + length sel) (n - int (length sel)) g1 = Some r"
        by (simp add: sel_def samples'_def Let_def)
      have len: "length samples' = length samples"
        using True fits by (simp add: samples'_def)
      have tk: "take (i + length sel) samples' = take i samples @ sel"
        unfolding samples'_def using True by (intro take_slice_assign) simp
      have sel_ok: "\<forall>v \<in> set sel. x_gt v lo \<and> x_le v up"
        unfolding sel_def using select_in_range by blast
      note step = ih [OF call]
      show ?thesis
      proof (intro impI allI)
        fix out g'
        assume le: "i \<le> length samples"
          and inv: "\<forall>v \<in> set (take i samples). x_gt v lo \<and> x_le v up"
          and eq: "r = Inr (out, g')"
        have le': "i + length sel \<le> length samples'" using fits True len by simp
        have inv': "\<forall>v \<in> set (take (i + length sel) samples'). x_gt v lo \<and> x_le v up"
          using inv sel_ok by (auto simp: tk)
        from step le' inv' eq len
        show "length out = length samples \<and> (\<forall>v \<in> set out. x_gt v lo \<and> x_le v up)"
          by simp
      qed
    qed
  qed
qed

text \<open>
  The loop returns when every batch asked for with \<open>n > 0\<close> holds at least one accepted
  draw and at most \<open>n\<close> of them: the number of empty places decreases.
\<close>

lemma Bounded_random_loop_terminates:
  assumes prog: "\<And>n h. 0 < n \<Longrightarrow>
      select lo up (fst (distribution_random d n h)) \<noteq> [] \<and>
      int (length (select lo up (fst (distribution_random d n h)))) \<le> n"
  shows "i \<le> length samples \<Longrightarrow> n = int (length samples - i) \<Longrightarrow>
         \<exists>out g'. Bounded_random_loop d lo up samples i n g = Some (Inr (out, g'))"
proof (induction "length samples - i" arbitrary: samples i n g rule: less_induct)
  case less
  show ?case
  proof (cases "i < length samples")
    case False
    then show ?thesis by (subst Bounded_random_loop.simps) simp
  next
    case True
    obtain sample g1 where dr: "distribution_random d n g = (sample, g1)"
      by (cases "distribution_random d n g")
    define sel where "sel = select lo up sample"
    define samples' where "samples' = take i samples @ sel @ drop (i + length sel) samples"
    from True less.prems have npos: "0 < n" by simp
    from prog [OF npos, of g] dr have ne: "sel \<noteq> []" and le: "int (length sel) \<le> n"
      by (simp_all add: sel_def)
    from le less.prems have fits: "length sel \<le> length samples - i" by simp
    have len: "length samples' = length samples"
      using True fits by (simp add: samples'_def)
    have unfold: "Bounded_random_loop d lo up samples i n g =
        Bounded_random_loop d lo up samples' (i + length sel) (n - int (length sel)) g1"
      using True fits dr
      by (subst Bounded_random_loop.simps) (simp add: sel_def samples'_def Let_def)
    have smaller: "length samples' - (i + length sel) < length samples - i"
      using ne True fits len by (cases sel) simp_all
    have le': "i + length sel \<le> length samples'" using fits True len by simp
    have n': "n - int (length sel) = int (length samples' - (i + length sel))"
      using less.prems fits len by simp
    from less.hyps [OF smaller le' n'] unfold show ?thesis by simp
  qed
qed

text \<open>The concrete sampler: two rounds fill a buffer of three places.\<close>

lemma two_batches_progress:
  "0 < n \<Longrightarrow> select (Fin 0) PInf (fst (distribution_random two_batches n h)) \<noteq> [] \<and>
     int (length (select (Fin 0) PInf (fst (distribution_random two_batches n h)))) \<le> n"
  by (simp add: two_batches_def select_def)

lemma two_batches_run:
  "Bounded__random bounded_two_batches (Fin 0) PInf (Some [3]) 0 = Some (Inr ([1, 2, 2], 2))"
  by (simp add: Bounded__random_def np_zeros_flatten_def Bounded_random_loop.simps select_def
      two_batches_def bounded_two_batches_def eval_nat_numeral)

text \<open>
  Claim C6.  Whatever the inner distribution draws, an array returned by
  \<^verbatim>\<open>Bounded._random\<close> has the requested number of values and each of them passed the
  acceptance test, so it lies inside the bounds; for \<open>lower = 0\<close> each value is \<open>\<ge> 0\<close>.
  The sampler does return when every batch asked for with \<open>n > 0\<close> holds at least one and
  at most \<open>n\<close> accepted draws.
\<close>

theorem Bounded__random_in_bounds:
  "(Bounded__random self lower upper sz g = Some (Inr (out, g')) \<longrightarrow>
      length out = length (np_zeros_flatten sz) \<and>
      (\<forall>v \<in> set out. x_gt v lower \<and> x_le v upper) \<and>
      (lower = Fin 0 \<longrightarrow> (\<forall>v \<in> set out. 0 \<le> v))) \<and>
   ((\<forall>n h. 0 < n \<longrightarrow>
        select lower upper (fst (distribution_random (Bounded_dist self) n h)) \<noteq> [] \<and>
        int (length (select lower upper (fst (distribution_random (Bounded_dist self) n h))))
          \<le> n) \<longrightarrow>
    (\<exists>out g'. Bounded__random self lower upper sz g = Some (Inr (out, g'))))"
proof (intro conjI impI)
  assume run: "Bounded__random self lower upper sz g = Some (Inr (out, g'))"
  then have loop: "Bounded_random_loop (Bounded_dist self) lower upper (np_zeros_flatten sz) 0
      (int (length (np_zeros_flatten sz))) g = Some (Inr (out, g'))"
    by (simp add: Bounded__random_def Let_def)
  from Bounded_random_loop_safe [OF loop]
  show len: "length out = length (np_zeros_flatten sz)"
    and rng: "\<forall>v \<in> set out. x_gt v lower \<and> x_le v upper"
    by simp_all
  show "\<forall>v \<in> set out. 0 \<le> v" if "lower = Fin 0"
    using rng that by auto
next
  assume "\<forall>n h. 0 < n \<longrightarrow>
        select lower upper (fst (distribution_random (Bounded_dist self) n h)) \<noteq> [] \<and>
        int (length (select lower upper (fst (distribution_random (Bounded_dist self) n h))))
          \<le> n"
  then have prog: "\<And>n h. 0 < n \<Longrightarrow>
        select lower upper (fst (distribution_random (Bounded_dist self) n h)) \<noteq> [] \<and>
        int (length (select lower upper (fst (distribution_random (Bounded_dist self) n h))))
          \<le> n"
    by blast
  from Bounded_random_loop_terminates [OF prog, of 0 "np_zeros_flatten sz" _ g]
  show "\<exists>out g'. Bounded__random self lower upper sz g = Some (Inr (out, g'))"
    by (simp add: Bounded__random_def Let_def)
qed

theorem Bounded__random_in_bounds_witness:
  "Bounded__random bounded_two_batches (Fin 0) PInf (Some [3]) 0 = Some (Inr ([1, 2, 2], 2)) \<and>
   length [1, 2, 2 :: real] = length (np_zeros_flatten (Some [3])) \<and>
   x_gt 1 (Fin 0) \<and> x_le 1 PInf \<and> x_gt 2 (Fin 0) \<and> x_le 2 PInf \<and>
   (\<exists>out g'. Bounded__random bounded_two_batches (Fin 0) PInf (Some [3]) 0 = Some (Inr (out, g')))"
proof -
  have prog: "\<forall>n h. 0 < n \<longrightarrow>
      select (Fin 0) PInf (fst (distribution_random (Bounded_dist bounded_two_batches) n h)) \<noteq> [] \<and>
      int (length (select (Fin 0) PInf
        (fst (distribution_random (Bounded_dist bounded_two_batches) n h)))) \<le> n"
    using two_batches_progress by (simp add: bounded_two_batches_def)
  from Bounded__random_in_bounds
         [of bounded_two_batches "Fin 0" PInf "Some [3]" 0 "[1, 2, 2]" 2]
       two_batches_run prog
  show ?thesis by (simp add: np_zeros_flatten_def)
qed

text \<open>
  Claim C10.  The acceptance test keeps a draw exactly when \<open>lower < draw \<le> upper\<close>: a
  draw equal to \<open>lower\<close> is discarded and never occurs in a returned array, a draw equal
  to \<open>upper\<close> is kept (when it is above \<open>lower\<close>).  \<^verbatim>\<open>Bounded.logp\<close> at \<open>value = lower\<close>
  passes its guard (when \<open>lower \<le> upper\<close>) and is the log-density of the inner distribution.
\<close>

theorem Bounded_select_strict_lower:
  "(v \<in> set (select lower upper sample) \<longleftrightarrow> v \<in> set sample \<and> x_gt v lower \<and> x_le v upper) \<and>
   l \<notin> set (select (Fin l) upper sample) \<and>
   (u \<in> set sample \<and> x_gt u lower \<longrightarrow> u \<in> set (select lower (Fin u) sample)) \<and>
   (Bounded__random self (Fin l) upper sz g = Some (Inr (out, g')) \<longrightarrow> l \<notin> set out) \<and>
   (Bounded_lower self = Fin l \<and> x_le l (Bounded_upper self) \<longrightarrow>
      Bounded_logp self l = distribution_logp (Bounded_dist self) l)"
proof (intro conjI impI)
  show "v \<in> set (select lower upper sample) \<longleftrightarrow> v \<in> set sample \<and> x_gt v lower \<and> x_le v upper"
    by (simp add: select_def)
  show "l \<notin> set (select (Fin l) upper sample)"
    by (simp add: select_def)
  show "u \<in> set (select lower (Fin u) sample)" if "u \<in> set sample \<and> x_gt u lower"
    using that by (simp add: select_def)
  show "l \<notin> set out" if run: "Bounded__random self (Fin l) upper sz g = Some (Inr (out, g'))"
  proof -
    from run have "Bounded_random_loop (Bounded_dist self) (Fin l) upper (np_zeros_flatten sz) 0
        (int (length (np_zeros_flatten sz))) g = Some (Inr (out, g'))"
      by (simp add: Bounded__random_def Let_def)
    from Bounded_random_loop_safe [OF this]
    have "\<forall>v \<in> set out. x_gt v (Fin l) \<and> x_le v upper" by simp
    then show ?thesis by auto
  qed
  show "Bounded_logp self l = distribution_logp (Bounded_dist self) l"
    if "Bounded_lower self = Fin l \<and> x_le l (Bounded_upper self)"
    using that by (simp add: Bounded_logp_def bound_def)
qed

theorem Bounded_select_strict_lower_witness:
  "select (Fin 0) (Fin 2) [0, 1, 2, 3] = [1, 2] \<and>
   2 \<in> set [0, 1, 2, 3 :: real] \<and> x_gt 2 (Fin 0) \<and>
   2 \<in> set (select (Fin 0) (Fin 2) [0, 1, 2, 3]) \<and>
   Bounded__random bounded_two_batches (Fin 0) PInf (Some [3]) 0 = Some (Inr ([1, 2, 2], 2)) \<and>
   (0::real) \<notin> set [1, 2, 2] \<and>
   Bounded_lower bounded_two_batches = Fin 0 \<and> x_le 0 (Bounded_upper bounded_two_batches) \<and>
   Bounded_logp bounded_two_batches 0 = Fin 0"
proof -
  have sel: "select (Fin 0) (Fin 2) [0, 1, 2, 3] = [1, 2]"
    by (simp add: select_def)
  have lo: "Bounded_lower bounded_two_batches = Fin 0 \<and> x_le 0 (Bounded_upper bounded_two_batches)"
    by (simp add: bounded_two_batches_def)
  have inner: "distribution_logp (Bounded_dist bounded_two_batches) 0 = Fin 0"
    by (simp add: bounded_two_batches_def two_batches_def)
  from Bounded_select_strict_lower
         [where v = 2 and lower = "Fin 0" and upper = PInf and sample = "[0, 1, 2, 3]"
            and l = 0 and u = 2 and self = bounded_two_batches and sz = "Some [3]" and g = 0
            and out = "[1, 2, 2]" and g' = 2]
       two_batches_run sel lo inner
  show ?thesis by simp
qed

end
